theory Spec2Isabelle
  imports Main "HOL-Library.AList" "HOL-Library.Word"
begin

section \<open>The Sciospec EIT device controller (eit\_app/io/sciospec/device.py)\<close>

text \<open>
  The class \<open>SciospecEITDevice\<close> is embedded as a record that is passed through every
  method and returned updated. Its collaborators \<open>SciospecSetup\<close>,
  \<open>SciospecSerialInterface\<close>, \<open>SciospecCommunicator\<close> and the \<open>MultiStatewSignal\<close>
  of glob\_utils are imported by device.py but their code is missing, so their methods
  are parameters of the model (the record \<open>env\<close>): every
  definition below takes the collaborators' behaviour as its first argument and every
  theorem holds for all of them, unless it names a law it needs.
  Calls to \<open>logger\<close> and \<open>sleep\<close> leave no mark on the state and are left out.
\<close>

subsection \<open>Data\<close>

text \<open>
  Modelled from the spec: the enum \<open>MeasuringStates\<close>, which device.py imports and whose
  declaration is missing. The spec gives it as one of Idle, Measuring, Paused; the
  members carry the names under which device.py uses them.
\<close>

datatype MeasuringStates = IDLE | MEASURING | PAUSED

text \<open>
  The command and option constants that device.py imports from com\_constants, which is
  missing: each is a name of its own, their byte values play no part here.
\<close>

datatype SciospecCmd =
    CMD_GET_DEVICE_INFOS | CMD_GET_ETHERNET_CONFIG | CMD_GET_MEAS_SETUP
  | CMD_GET_OUTPUT_CONFIG | CMD_SET_ETHERNET_CONFIG | CMD_SET_MEAS_SETUP
  | CMD_SET_OUTPUT_CONFIG | CMD_SOFT_RESET | CMD_START_STOP_MEAS

datatype SciospecOption =
    OP_BURST_COUNT | OP_CURRENT_STAMP | OP_DHCP | OP_EXC_AMPLITUDE | OP_EXC_FREQUENCIES
  | OP_EXC_PATTERN | OP_EXC_STAMP | OP_FRAME_RATE | OP_IP_ADRESS | OP_MAC_ADRESS
  | OP_NULL | OP_RESET_SETUP | OP_START_MEAS | OP_STOP_MEAS | OP_TIME_STAMP

type_synonym bytes = "8 word list"

text \<open>
  The event dataclasses of update\_event.py that the device posts to the GUI.
  \<open>FrameProgress\<close> has the fields \<open>idx_frame\<close> and \<open>progression\<close>; the device also
  posts it with \<open>idx_frame = None\<close>, hence the option. \<open>MeasuringStatus\<close> is posted
  by device.py with the measuring state as its only argument.
\<close>

datatype 'su gui_data =
    MeasuringStatus MeasuringStates
  | DevStatus bool string
  | DevAvailables "(string \<times> string) list"
  | DevSetup 'su
  | FrameProgress "int option" int
  | FrameInfo string

text \<open>
  Everything the device does to the outside, in the order in which it does it: the three
  signals \<open>to_gui\<close>, \<open>to_dataset\<close> and \<open>to_capture_dev\<close>, the message boxes, and the
  calls into the communicator and the serial interface.
\<close>

datatype 'su effect =
    ToGui "'su gui_data"
  | ToDatasetReinit4Pause
  | ToDatasetDevSetup 'su
  | ToCaptureDev bool
  | InfoMsgBox string string
  | WarningMsgBox string string
  | ErrorMsgBox string string
  | SendCmdFrame SciospecCmd SciospecOption bytes
  | SerialOpen string
  | SerialClose

text \<open>What a method returns: \<open>None\<close>, a bool, or the dict of devices.\<close>

datatype retval = RNone | RBool bool | RDict "(string \<times> string) list"

text \<open>
  The collaborators. \<open>'su\<close> is the state of the \<open>SciospecSetup\<close> object, \<open>'w\<close> the state
  of the serial interface, the communicator and the instrument behind them. Replies of
  the instrument reach the setup through \<open>communicator.new_rx_setup_stream\<close>, so sending
  and waiting may change the setup as well.
  \<open>changed_fires old new\<close> says whether \<open>MultiStatewSignal.change_state\<close> fires its
  \<open>changed\<close> signal.
\<close>

record ('su, 'w) env =
  changed_fires :: "MeasuringStates \<Rightarrow> MeasuringStates \<Rightarrow> bool"
  get_data :: "SciospecCmd \<Rightarrow> SciospecOption \<Rightarrow> 'su \<Rightarrow> bytes"
  send_cmd_frame :: "SciospecCmd \<Rightarrow> SciospecOption \<Rightarrow> bytes \<Rightarrow> 'su \<times> 'w \<Rightarrow> bool \<times> 'su \<times> 'w"
  wait_not_busy :: "'su \<times> 'w \<Rightarrow> 'su \<times> 'w"
  serial_open :: "string \<Rightarrow> 'w \<Rightarrow> bool \<times> 'w"
  serial_close :: "'w \<Rightarrow> bool \<times> 'w"
  serial_reinit :: "'w \<Rightarrow> 'w"
  is_connected_set :: "'w \<Rightarrow> bool"
  get_ports_available :: "'w \<Rightarrow> string list"
  get_burst :: "'su \<Rightarrow> int"
  get_sn :: "'su \<Rightarrow> bytes"
  set_sn :: "bytes \<Rightarrow> 'su \<Rightarrow> 'su"
  build_sciospec_device_name :: "string \<Rightarrow> 'su \<Rightarrow> string option"
  setup_reinit :: "'su \<Rightarrow> 'su"
  get_exc_pattern :: "'su \<Rightarrow> int list list"
  set_exc_pattern_idx :: "nat \<Rightarrow> 'su \<Rightarrow> 'su"

text \<open>
  The attributes of \<open>SciospecEITDevice\<close>. \<open>sciospec_devices\<close> is the dict from device
  name to port, in insertion order; \<open>dev_setup\<close> is the attribute \<open>setup\<close>; \<open>link\<close>
  holds \<open>serial_interface\<close> and \<open>communicator\<close>; \<open>trace\<close> collects the effects.
\<close>

record ('su, 'w) device =
  sciospec_devices :: "(string \<times> string) list"
  device_name :: string
  meas_status :: MeasuringStates
  dev_setup :: 'su
  link :: 'w
  trace :: "'su effect list"

definition NONE_DEVICE :: string where
  "NONE_DEVICE = ''None Device''"

subsection \<open>Notifications\<close>

definition emit :: "'su effect \<Rightarrow> ('su, 'w) device \<Rightarrow> ('su, 'w) device" where
  "emit e d = d\<lparr>trace := trace d @ [e]\<rparr>"

definition emit_to_gui :: "'su gui_data \<Rightarrow> ('su, 'w) device \<Rightarrow> ('su, 'w) device" where
  "emit_to_gui dat d = emit (ToGui dat) d"

definition is_measuring :: "('su, 'w) device \<Rightarrow> bool" where
  "is_measuring d = (meas_status d = MEASURING)"

definition is_paused :: "('su, 'w) device \<Rightarrow> bool" where
  "is_paused d = (meas_status d = PAUSED)"

definition is_idle :: "('su, 'w) device \<Rightarrow> bool" where
  "is_idle d = (meas_status d = IDLE)"

definition emit_to_capture_dev :: "('su, 'w) device \<Rightarrow> ('su, 'w) device" where
  "emit_to_capture_dev d = emit (ToCaptureDev (is_measuring d \<or> is_paused d)) d"

definition emit_meas_status :: "('su, 'w) device \<Rightarrow> ('su, 'w) device" where
  "emit_meas_status d = emit_to_capture_dev (emit_to_gui (MeasuringStatus (meas_status d)) d)"

text \<open>
  \<open>meas_status.change_state(s)\<close>: the state is set, and \<open>emit_meas_status\<close>, which
  the constructor connects to \<open>meas_status.changed\<close>, runs when the signal fires.
\<close>

definition change_state ::
  "('su, 'w) env \<Rightarrow> MeasuringStates \<Rightarrow> ('su, 'w) device \<Rightarrow> ('su, 'w) device" where
  "change_state E s d =
     (let d1 = d\<lparr>meas_status := s\<rparr>
      in if changed_fires E (meas_status d) s then emit_meas_status d1 else d1)"

definition is_connected :: "('su, 'w) env \<Rightarrow> ('su, 'w) device \<Rightarrow> bool" where
  "is_connected E d = is_connected_set E (link d)"

definition connect_prompt :: "('su, 'w) device \<Rightarrow> string" where
  "connect_prompt d = device_name d @ '' - CONNECTED''"

definition emit_dev_status :: "('su, 'w) env \<Rightarrow> ('su, 'w) device \<Rightarrow> ('su, 'w) device" where
  "emit_dev_status E d = emit_to_gui (DevStatus (is_connected E d) (connect_prompt d)) d"

definition dataset_init_for_pause :: "('su, 'w) device \<Rightarrow> ('su, 'w) device" where
  "dataset_init_for_pause d = emit ToDatasetReinit4Pause d"

definition dataset_init_for_start :: "('su, 'w) device \<Rightarrow> ('su, 'w) device" where
  "dataset_init_for_start d = emit (ToDatasetDevSetup (dev_setup d)) d"

subsection \<open>Communicator and measurement commands\<close>

definition send_communicator ::
  "('su, 'w) env \<Rightarrow> SciospecCmd \<Rightarrow> SciospecOption \<Rightarrow> ('su, 'w) device
     \<Rightarrow> bool \<times> ('su, 'w) device" where
  "send_communicator E cmd op d =
     (let dat = get_data E cmd op (dev_setup d);
          (success, su, w) = send_cmd_frame E cmd op dat (dev_setup d, link d)
      in (success, (emit (SendCmdFrame cmd op dat) d)\<lparr>dev_setup := su, link := w\<rparr>))"

definition communicator_wait_not_busy ::
  "('su, 'w) env \<Rightarrow> ('su, 'w) device \<Rightarrow> ('su, 'w) device" where
  "communicator_wait_not_busy E d =
     (let (su, w) = wait_not_busy E (dev_setup d, link d)
      in d\<lparr>dev_setup := su, link := w\<rparr>)"

text \<open>\<open>_start_meas\<close> and \<open>_stop_meas\<close>.\<close>

definition priv_start_meas ::
  "('su, 'w) env \<Rightarrow> ('su, 'w) device \<Rightarrow> bool \<times> ('su, 'w) device" where
  "priv_start_meas E d =
     (let (success, d1) = send_communicator E CMD_START_STOP_MEAS OP_START_MEAS d;
          d2 = communicator_wait_not_busy E d1
      in (success, d2))"

definition priv_stop_meas ::
  "('su, 'w) env \<Rightarrow> ('su, 'w) device \<Rightarrow> bool \<times> ('su, 'w) device" where
  "priv_stop_meas E d =
     (let (success, d1) = send_communicator E CMD_START_STOP_MEAS OP_STOP_MEAS d;
          d2 = communicator_wait_not_busy E d1
      in (success, d2))"

definition stop_meas :: "('su, 'w) env \<Rightarrow> ('su, 'w) device \<Rightarrow> ('su, 'w) device" where
  "stop_meas E d =
     (let (success, d1) = priv_stop_meas E d
      in if success then emit_to_gui (FrameProgress (Some 0) 0) (change_state E IDLE d1)
         else d1)"

definition pause_meas :: "('su, 'w) env \<Rightarrow> ('su, 'w) device \<Rightarrow> ('su, 'w) device" where
  "pause_meas E d =
     (let (success, d1) = priv_stop_meas E d
      in if success
         then emit_to_gui (FrameProgress None 0)
                (dataset_init_for_pause (change_state E PAUSED d1))
         else d1)"

definition check_nb_meas_reached ::
  "('su, 'w) env \<Rightarrow> int \<Rightarrow> ('su, 'w) device \<Rightarrow> ('su, 'w) device" where
  "check_nb_meas_reached E idx d =
     (if \<not> is_measuring d then d
      else let burst = get_burst E (dev_setup d)
           in if burst > 0 \<and> idx = burst then stop_meas E d else d)"

subsection \<open>The decorator \<open>check_not_measuring\<close>\<close>

definition check_not_measuring ::
  "('su, 'w) env \<Rightarrow> bool \<Rightarrow> (('su, 'w) device \<Rightarrow> retval \<times> ('su, 'w) device)
     \<Rightarrow> ('su, 'w) device \<Rightarrow> retval \<times> ('su, 'w) device" where
  "check_not_measuring E force_stop func d =
     (let (msg, run_func, d1) =
            (if \<not> is_measuring d then (None, True, d)
             else if force_stop
               then (Some ''Measurements have been stopped'', True, stop_meas E d)
             else (Some ''Please stop measurements first'', False, d));
          d2 = (case msg of
                  None \<Rightarrow> d1
                | Some m \<Rightarrow> emit (InfoMsgBox ''Measurements still running!'' m) d1)
      in if run_func then func d2 else (RNone, d2))"

subsection \<open>Start and resume\<close>

definition start_meas_body ::
  "('su, 'w) env \<Rightarrow> ('su, 'w) device \<Rightarrow> retval \<times> ('su, 'w) device" where
  "start_meas_body E d =
     (let (success, d1) = priv_start_meas E d
      in (RBool success,
          if success then emit_to_gui (FrameInfo '''') (change_state E MEASURING d1)
          else d1))"

definition start_meas ::
  "('su, 'w) env \<Rightarrow> ('su, 'w) device \<Rightarrow> retval \<times> ('su, 'w) device" where
  "start_meas E = check_not_measuring E False (start_meas_body E)"

definition resume_meas_body ::
  "('su, 'w) env \<Rightarrow> ('su, 'w) device \<Rightarrow> retval \<times> ('su, 'w) device" where
  "resume_meas_body E d =
     (let (success, d1) = priv_start_meas E d
      in (RBool success, if success then change_state E MEASURING d1 else d1))"

definition resume_meas ::
  "('su, 'w) env \<Rightarrow> ('su, 'w) device \<Rightarrow> retval \<times> ('su, 'w) device" where
  "resume_meas E = check_not_measuring E False (resume_meas_body E)"

definition start_paused_resume_meas ::
  "('su, 'w) env \<Rightarrow> ('su, 'w) device \<Rightarrow> ('su, 'w) device" where
  "start_paused_resume_meas E d =
     (if meas_status d = IDLE then snd (start_meas E (dataset_init_for_start d))
      else if meas_status d = MEASURING then pause_meas E d
      else if meas_status d = PAUSED then snd (resume_meas E d)
      else d)"

subsection \<open>Setup of the device\<close>

definition get_device_infos_body ::
  "('su, 'w) env \<Rightarrow> ('su, 'w) device \<Rightarrow> retval \<times> ('su, 'w) device" where
  "get_device_infos_body E d =
     (let (_, d1) = send_communicator E CMD_GET_DEVICE_INFOS OP_NULL d;
          d2 = communicator_wait_not_busy E d1;
          d3 = emit_to_gui (DevSetup (dev_setup d2)) d2
      in (RNone, d3))"

definition get_device_infos ::
  "('su, 'w) env \<Rightarrow> ('su, 'w) device \<Rightarrow> retval \<times> ('su, 'w) device" where
  "get_device_infos E = check_not_measuring E False (get_device_infos_body E)"

definition get_setup_body ::
  "('su, 'w) env \<Rightarrow> ('su, 'w) device \<Rightarrow> retval \<times> ('su, 'w) device" where
  "get_setup_body E d =
     (let (_, d1) = send_communicator E CMD_GET_MEAS_SETUP OP_EXC_AMPLITUDE d;
          (_, d2) = send_communicator E CMD_GET_MEAS_SETUP OP_BURST_COUNT d1;
          (_, d3) = send_communicator E CMD_GET_MEAS_SETUP OP_FRAME_RATE d2;
          (_, d4) = send_communicator E CMD_GET_MEAS_SETUP OP_EXC_FREQUENCIES d3;
          (_, d5) = send_communicator E CMD_GET_MEAS_SETUP OP_EXC_PATTERN d4;
          (_, d6) = send_communicator E CMD_GET_OUTPUT_CONFIG OP_EXC_STAMP d5;
          (_, d7) = send_communicator E CMD_GET_OUTPUT_CONFIG OP_CURRENT_STAMP d6;
          (_, d8) = send_communicator E CMD_GET_OUTPUT_CONFIG OP_TIME_STAMP d7;
          (_, d9) = send_communicator E CMD_GET_ETHERNET_CONFIG OP_IP_ADRESS d8;
          (_, d10) = send_communicator E CMD_GET_ETHERNET_CONFIG OP_MAC_ADRESS d9;
          (_, d11) = send_communicator E CMD_GET_ETHERNET_CONFIG OP_DHCP d10;
          d12 = communicator_wait_not_busy E d11;
          d13 = emit_to_gui (DevSetup (dev_setup d12)) d12
      in (RNone, d13))"

definition get_setup ::
  "('su, 'w) env \<Rightarrow> ('su, 'w) device \<Rightarrow> retval \<times> ('su, 'w) device" where
  "get_setup E = check_not_measuring E False (get_setup_body E)"

text \<open>
  The first nine sends of \<open>set_setup\<close>, up to the loop over the excitation pattern.
\<close>

definition set_setup_head :: "('su, 'w) env \<Rightarrow> ('su, 'w) device \<Rightarrow> ('su, 'w) device" where
  "set_setup_head E d =
     (let (_, d1) = send_communicator E CMD_SET_OUTPUT_CONFIG OP_EXC_STAMP d;
          (_, d2) = send_communicator E CMD_SET_OUTPUT_CONFIG OP_CURRENT_STAMP d1;
          (_, d3) = send_communicator E CMD_SET_OUTPUT_CONFIG OP_TIME_STAMP d2;
          (_, d4) = send_communicator E CMD_SET_ETHERNET_CONFIG OP_DHCP d3;
          (_, d5) = send_communicator E CMD_SET_MEAS_SETUP OP_RESET_SETUP d4;
          (_, d6) = send_communicator E CMD_SET_MEAS_SETUP OP_EXC_AMPLITUDE d5;
          (_, d7) = send_communicator E CMD_SET_MEAS_SETUP OP_BURST_COUNT d6;
          (_, d8) = send_communicator E CMD_SET_MEAS_SETUP OP_FRAME_RATE d7;
          (_, d9) = send_communicator E CMD_SET_MEAS_SETUP OP_EXC_FREQUENCIES d8
      in d9)"

text \<open>
  \<open>for idx in range(len(self.setup.get_exc_pattern()))\<close>: the range is built once,
  before the first round, and the loop runs over it.
\<close>

primrec exc_pattern_loop ::
  "('su, 'w) env \<Rightarrow> nat list \<Rightarrow> ('su, 'w) device \<Rightarrow> ('su, 'w) device" where
  "exc_pattern_loop E [] d = d"
| "exc_pattern_loop E (idx # idxs) d =
     (let d1 = d\<lparr>dev_setup := set_exc_pattern_idx E idx (dev_setup d)\<rparr>;
          (_, d2) = send_communicator E CMD_SET_MEAS_SETUP OP_EXC_PATTERN d1
      in exc_pattern_loop E idxs d2)"

definition set_setup_body ::
  "('su, 'w) env \<Rightarrow> ('su, 'w) device \<Rightarrow> retval \<times> ('su, 'w) device" where
  "set_setup_body E d =
     (let d9 = set_setup_head E d;
          d10 = exc_pattern_loop E [0 ..< length (get_exc_pattern E (dev_setup d9))] d9;
          d11 = communicator_wait_not_busy E d10;
          (_, d12) = get_setup E d11
      in (RNone, d12))"

definition set_setup ::
  "('su, 'w) env \<Rightarrow> ('su, 'w) device \<Rightarrow> retval \<times> ('su, 'w) device" where
  "set_setup E = check_not_measuring E False (set_setup_body E)"

subsection \<open>Connection with the device\<close>

definition priv_connect_interface ::
  "('su, 'w) env \<Rightarrow> string \<Rightarrow> ('su, 'w) device \<Rightarrow> bool \<times> ('su, 'w) device" where
  "priv_connect_interface E port d =
     (let (success, w) = serial_open E port (link d)
      in (success, (emit (SerialOpen port) d)\<lparr>link := w\<rparr>))"

definition priv_disconnect_interface ::
  "('su, 'w) env \<Rightarrow> ('su, 'w) device \<Rightarrow> bool \<times> ('su, 'w) device" where
  "priv_disconnect_interface E d =
     (let (success, w) = serial_close E (link d)
      in (success, (emit SerialClose d)\<lparr>link := w\<rparr>))"

definition priv_check_is_sciospec_dev ::
  "('su, 'w) env \<Rightarrow> string \<Rightarrow> ('su, 'w) device \<Rightarrow> string option \<times> ('su, 'w) device" where
  "priv_check_is_sciospec_dev E port d =
     (let tmp_sn = get_sn E (dev_setup d);
          (_, d1) = priv_connect_interface E port d;
          (_, d2) = priv_stop_meas E d1;
          (_, d3) = get_device_infos E d2;
          device_name = build_sciospec_device_name E port (dev_setup d3);
          (_, d4) = priv_disconnect_interface E d3;
          d5 = d4\<lparr>dev_setup := set_sn E tmp_sn (dev_setup d4)\<rparr>
      in (device_name, d5))"

text \<open>
  \<open>_get_sciospec_port\<close>. The name is optional because \<open>set_device_name\<close> passes its
  argument on, whose default is \<open>None\<close>; \<open>None\<close> is never a key of the dict.
\<close>

definition quoted :: "string option \<Rightarrow> string" where
  "quoted name = [CHR 0x22] @ (case name of None \<Rightarrow> ''None'' | Some n \<Rightarrow> n) @ [CHR 0x22]"

definition priv_get_sciospec_port ::
  "string option \<Rightarrow> ('su, 'w) device \<Rightarrow> string option \<times> ('su, 'w) device" where
  "priv_get_sciospec_port name d =
     (if sciospec_devices d = []
      then (None, emit (WarningMsgBox ''No Sciospec devices - DETECTED''
              ''Please refresh the list of availables device first and retry!'') d)
      else if (case name of None \<Rightarrow> True | Some n \<Rightarrow> map_of (sciospec_devices d) n = None)
      then (None, emit (ErrorMsgBox ''Sciospec device - NOT FOUND ''
              (''Please reconnect your device '' @ quoted name)) d)
      else (map_of (sciospec_devices d) (the name), d))"

definition set_device_name_body ::
  "string option \<Rightarrow> ('su, 'w) device \<Rightarrow> retval \<times> ('su, 'w) device" where
  "set_device_name_body name d =
     (let (port, d1) = priv_get_sciospec_port name d
      in (RNone,
          d1\<lparr>device_name :=
                (case port of
                   None \<Rightarrow> NONE_DEVICE
                 | Some p \<Rightarrow> if p \<noteq> [] then the name else NONE_DEVICE)\<rparr>))"

definition set_device_name ::
  "('su, 'w) env \<Rightarrow> string option \<Rightarrow> ('su, 'w) device \<Rightarrow> retval \<times> ('su, 'w) device" where
  "set_device_name E name = check_not_measuring E False (set_device_name_body name)"

primrec get_devices_loop ::
  "('su, 'w) env \<Rightarrow> string list \<Rightarrow> ('su, 'w) device \<Rightarrow> ('su, 'w) device" where
  "get_devices_loop E [] d = d"
| "get_devices_loop E (port # ports) d =
     (let (found, d1) = priv_check_is_sciospec_dev E port d;
          d2 = (case found of
                  None \<Rightarrow> d1
                | Some n \<Rightarrow> d1\<lparr>sciospec_devices := AList.update n port (sciospec_devices d1),
                               device_name := n\<rparr>)
      in get_devices_loop E ports d2)"

definition get_devices_body ::
  "('su, 'w) env \<Rightarrow> ('su, 'w) device \<Rightarrow> retval \<times> ('su, 'w) device" where
  "get_devices_body E d =
     (let ports = get_ports_available E (link d);
          d1 = d\<lparr>sciospec_devices := []\<rparr>;
          d2 = get_devices_loop E ports d1;
          d3 = emit_to_gui (DevAvailables (sciospec_devices d2)) d2
      in (RDict (sciospec_devices d3), d3))"

definition get_devices ::
  "('su, 'w) env \<Rightarrow> ('su, 'w) device \<Rightarrow> retval \<times> ('su, 'w) device" where
  "get_devices E = check_not_measuring E False (get_devices_body E)"

definition connect_device_body ::
  "('su, 'w) env \<Rightarrow> ('su, 'w) device \<Rightarrow> retval \<times> ('su, 'w) device" where
  "connect_device_body E d =
     (let (port, d1) = priv_get_sciospec_port (Some (device_name d)) d
      in case port of
           None \<Rightarrow> (RBool False, d1)
         | Some p \<Rightarrow>
             (let (success, d2) = priv_connect_interface E p d1;
                  d3 = (if success then snd (get_device_infos E d2) else d2);
                  d4 = d3\<lparr>device_name := (if success then device_name d3 else NONE_DEVICE)\<rparr>;
                  d5 = emit_dev_status E d4
              in (RBool success, d5)))"

definition connect_device ::
  "('su, 'w) env \<Rightarrow> ('su, 'w) device \<Rightarrow> retval \<times> ('su, 'w) device" where
  "connect_device E = check_not_measuring E False (connect_device_body E)"

definition disconnect_device_body ::
  "('su, 'w) env \<Rightarrow> ('su, 'w) device \<Rightarrow> retval \<times> ('su, 'w) device" where
  "disconnect_device_body E d =
     (if \<not> is_connected E d then (RNone, d)
      else let (success, d1) = priv_disconnect_interface E d;
               d2 = (if success
                     then d1\<lparr>dev_setup := setup_reinit E (dev_setup d1),
                             link := serial_reinit E (link d1)\<rparr>
                     else d1);
               d3 = d2\<lparr>device_name := (if success then NONE_DEVICE else device_name d2)\<rparr>;
               d4 = emit_dev_status E d3;
               (_, d5) = get_devices E d4
           in (RNone, d5))"

definition disconnect_device ::
  "('su, 'w) env \<Rightarrow> ('su, 'w) device \<Rightarrow> retval \<times> ('su, 'w) device" where
  "disconnect_device E = check_not_measuring E False (disconnect_device_body E)"

definition software_reset_body ::
  "('su, 'w) env \<Rightarrow> ('su, 'w) device \<Rightarrow> retval \<times> ('su, 'w) device" where
  "software_reset_body E d =
     (let (_, d1) = send_communicator E CMD_SOFT_RESET OP_NULL d;
          d2 = communicator_wait_not_busy E d1;
          (_, d3) = disconnect_device E d2;
          d4 = emit (InfoMsgBox ''Device reset '' ''Reset done'') d3
      in (RNone, d4))"

definition software_reset ::
  "('su, 'w) env \<Rightarrow> ('su, 'w) device \<Rightarrow> retval \<times> ('su, 'w) device" where
  "software_reset E = check_not_measuring E False (software_reset_body E)"

subsection \<open>The guarded operations\<close>

text \<open>
  The eight methods that carry \<open>@check_not_measuring()\<close> besides \<open>start_meas\<close> and
  \<open>resume_meas\<close>; all of them are declared with the default \<open>force_stop = False\<close>.
\<close>

definition guarded_ops ::
  "('su, 'w) env \<Rightarrow> string option
     \<Rightarrow> (('su, 'w) device \<Rightarrow> retval \<times> ('su, 'w) device) list" where
  "guarded_ops E name =
     [set_device_name E name, get_devices E, connect_device E, disconnect_device E,
      get_device_infos E, set_setup E, get_setup E, software_reset E]"

subsection \<open>Reading the trace\<close>

fun sent_of :: "'su effect \<Rightarrow> (SciospecCmd \<times> SciospecOption) list" where
  "sent_of (SendCmdFrame cmd op dat) = [(cmd, op)]"
| "sent_of _ = []"

definition sent_cmds :: "'su effect list \<Rightarrow> (SciospecCmd \<times> SciospecOption) list" where
  "sent_cmds tr = concat (map sent_of tr)"

fun gui_of :: "'su effect \<Rightarrow> 'su gui_data list" where
  "gui_of (ToGui dat) = [dat]"
| "gui_of _ = []"

definition gui_events :: "'su effect list \<Rightarrow> 'su gui_data list" where
  "gui_events tr = concat (map gui_of tr)"

text \<open>The effects that are notifications to the GUI, the dataset or the capture device.\<close>

fun is_notification :: "'su effect \<Rightarrow> bool" where
  "is_notification (ToGui dat) = True"
| "is_notification ToDatasetReinit4Pause = True"
| "is_notification (ToDatasetDevSetup su) = True"
| "is_notification (ToCaptureDev b) = True"
| "is_notification _ = False"

definition notifications :: "'su effect list \<Rightarrow> 'su effect list" where
  "notifications tr = filter is_notification tr"

fun is_FrameInfo :: "'su gui_data \<Rightarrow> bool" where
  "is_FrameInfo (FrameInfo info) = True"
| "is_FrameInfo _ = False"

fun is_FrameProgress :: "'su gui_data \<Rightarrow> bool" where
  "is_FrameProgress (FrameProgress idx_frame progression) = True"
| "is_FrameProgress _ = False"

subsection \<open>A bench instrument\<close>

text \<open>
  One concrete choice of collaborators, on which the theorems below are run. The setup
  keeps a serial number, a burst count, an excitation pattern and the index of the row
  in use. The instrument answers a device-info request with its own serial number, which
  the communicator writes into the setup; a send succeeds when \<open>bl_send_ok\<close> is set and
  a port opens when \<open>bl_open_ok\<close> is set.
\<close>

record bench_setup =
  bs_sn :: bytes
  bs_burst :: int
  bs_exc_pattern :: "int list list"
  bs_exc_pattern_idx :: nat

record bench_link =
  bl_connected :: bool
  bl_send_ok :: bool
  bl_open_ok :: bool
  bl_ports :: "string list"
  bl_wire_sn :: bytes

definition bench_get_data :: "SciospecCmd \<Rightarrow> SciospecOption \<Rightarrow> bench_setup \<Rightarrow> bytes" where
  "bench_get_data cmd op su =
     (if op = OP_EXC_PATTERN
      then (case drop (bs_exc_pattern_idx su) (bs_exc_pattern su) of
              [] \<Rightarrow> []
            | row # _ \<Rightarrow> map word_of_int row)
      else [])"

definition bench_send ::
  "SciospecCmd \<Rightarrow> SciospecOption \<Rightarrow> bytes \<Rightarrow> bench_setup \<times> bench_link
     \<Rightarrow> bool \<times> bench_setup \<times> bench_link" where
  "bench_send cmd op dat sw =
     (case sw of (su, w) \<Rightarrow>
        (bl_send_ok w,
         if bl_send_ok w \<and> cmd = CMD_GET_DEVICE_INFOS then su\<lparr>bs_sn := bl_wire_sn w\<rparr> else su,
         w))"

definition bench_env :: "(bench_setup, bench_link) env" where
  "bench_env =
     \<lparr>changed_fires = (\<lambda>old new. True),
      get_data = bench_get_data,
      send_cmd_frame = bench_send,
      wait_not_busy = (\<lambda>sw. sw),
      serial_open = (\<lambda>port w. (bl_open_ok w, w\<lparr>bl_connected := bl_open_ok w\<rparr>)),
      serial_close = (\<lambda>w. (True, w\<lparr>bl_connected := False\<rparr>)),
      serial_reinit = (\<lambda>w. w),
      is_connected_set = bl_connected,
      get_ports_available = bl_ports,
      get_burst = bs_burst,
      get_sn = bs_sn,
      set_sn = (\<lambda>b su. su\<lparr>bs_sn := b\<rparr>),
      build_sciospec_device_name =
        (\<lambda>port su. if bs_sn su = [] then None else Some (''Sciospec '' @ port)),
      setup_reinit = (\<lambda>su. su\<lparr>bs_sn := []\<rparr>),
      get_exc_pattern = bs_exc_pattern,
      set_exc_pattern_idx = (\<lambda>idx su. su\<lparr>bs_exc_pattern_idx := idx\<rparr>)\<rparr>"

definition bench_setup0 :: bench_setup where
  "bench_setup0 =
     \<lparr>bs_sn = [], bs_burst = 3, bs_exc_pattern = [ [1, 2], [2, 3] ], bs_exc_pattern_idx = 0\<rparr>"

definition bench_link0 :: bench_link where
  "bench_link0 =
     \<lparr>bl_connected = False, bl_send_ok = True, bl_open_ok = True,
      bl_ports = [''COM3''], bl_wire_sn = [1, 2, 3]\<rparr>"

text \<open>The device as \<open>__init__\<close> leaves it, on the bench.\<close>

definition bench_dev :: "(bench_setup, bench_link) device" where
  "bench_dev =
     \<lparr>sciospec_devices = [], device_name = NONE_DEVICE, meas_status = IDLE,
      dev_setup = bench_setup0, link = bench_link0, trace = []\<rparr>"

definition bench_measuring :: "(bench_setup, bench_link) device" where
  "bench_measuring = bench_dev\<lparr>meas_status := MEASURING\<rparr>"

definition bench_paused :: "(bench_setup, bench_link) device" where
  "bench_paused = bench_dev\<lparr>meas_status := PAUSED\<rparr>"

text \<open>The same, with an instrument that takes no command.\<close>

definition bench_deaf :: "MeasuringStates \<Rightarrow> (bench_setup, bench_link) device" where
  "bench_deaf s = bench_dev\<lparr>meas_status := s, link := bench_link0\<lparr>bl_send_ok := False\<rparr>\<rparr>"

text \<open>The device after a scan that found \<open>DevA\<close> at \<open>COM3\<close> and selected it.\<close>

definition bench_listed :: "(bench_setup, bench_link) device" where
  "bench_listed = bench_dev\<lparr>sciospec_devices := [(''DevA'', ''COM3'')], device_name := ''DevA''\<rparr>"

text \<open>The same, with a port that does not open.\<close>

definition bench_listed_shut :: "(bench_setup, bench_link) device" where
  "bench_listed_shut = bench_listed\<lparr>link := bench_link0\<lparr>bl_open_ok := False\<rparr>\<rparr>"

text \<open>A device whose setup already holds a serial number.\<close>

definition bench_numbered :: "(bench_setup, bench_link) device" where
  "bench_numbered = bench_dev\<lparr>dev_setup := bench_setup0\<lparr>bs_sn := [9, 9]\<rparr>\<rparr>"

text \<open>
  An interface that refuses to open a port while it holds a connection, and keeps the
  connection it holds; otherwise as on the bench.
\<close>

definition bench_env_held :: "(bench_setup, bench_link) env" where
  "bench_env_held =
     bench_env\<lparr>serial_open :=
       (\<lambda>port w. if bl_connected w then (False, w)
                  else (bl_open_ok w, w\<lparr>bl_connected := bl_open_ok w\<rparr>))\<rparr>"

text \<open>The device after \<open>connect_device\<close> has connected \<open>DevA\<close> on that interface.\<close>

definition bench_connected :: "(bench_setup, bench_link) device" where
  "bench_connected = snd (connect_device bench_env_held bench_listed)"

section \<open>Properties\<close>

subsection \<open>How the building blocks change the device\<close>

lemma send_communicator_fields [simp]:
  "meas_status (snd (send_communicator E cmd op d)) = meas_status d"
  "device_name (snd (send_communicator E cmd op d)) = device_name d"
  "sciospec_devices (snd (send_communicator E cmd op d)) = sciospec_devices d"
  "trace (snd (send_communicator E cmd op d)) =
     trace d @ [SendCmdFrame cmd op (get_data E cmd op (dev_setup d))]"
  by (simp_all add: send_communicator_def emit_def Let_def split: prod.splits)

lemma wait_fields [simp]:
  "meas_status (communicator_wait_not_busy E d) = meas_status d"
  "device_name (communicator_wait_not_busy E d) = device_name d"
  "sciospec_devices (communicator_wait_not_busy E d) = sciospec_devices d"
  "trace (communicator_wait_not_busy E d) = trace d"
  by (simp_all add: communicator_wait_not_busy_def split: prod.splits)

lemma priv_stop_meas_fields [simp]:
  "meas_status (snd (priv_stop_meas E d)) = meas_status d"
  "device_name (snd (priv_stop_meas E d)) = device_name d"
  "sciospec_devices (snd (priv_stop_meas E d)) = sciospec_devices d"
  "trace (snd (priv_stop_meas E d)) =
     trace d @ [SendCmdFrame CMD_START_STOP_MEAS OP_STOP_MEAS
                  (get_data E CMD_START_STOP_MEAS OP_STOP_MEAS (dev_setup d))]"
  by (simp_all add: priv_stop_meas_def Let_def split_beta)

lemma priv_start_meas_fields [simp]:
  "meas_status (snd (priv_start_meas E d)) = meas_status d"
  "device_name (snd (priv_start_meas E d)) = device_name d"
  "sciospec_devices (snd (priv_start_meas E d)) = sciospec_devices d"
  "trace (snd (priv_start_meas E d)) =
     trace d @ [SendCmdFrame CMD_START_STOP_MEAS OP_START_MEAS
                  (get_data E CMD_START_STOP_MEAS OP_START_MEAS (dev_setup d))]"
  by (simp_all add: priv_start_meas_def Let_def split_beta)

lemma emit_fields [simp]:
  "meas_status (emit e d) = meas_status d"
  "device_name (emit e d) = device_name d"
  "sciospec_devices (emit e d) = sciospec_devices d"
  "dev_setup (emit e d) = dev_setup d"
  "link (emit e d) = link d"
  "trace (emit e d) = trace d @ [e]"
  by (simp_all add: emit_def)

lemma change_state_fields [simp]:
  "meas_status (change_state E s d) = s"
  "device_name (change_state E s d) = device_name d"
  "sciospec_devices (change_state E s d) = sciospec_devices d"
  "dev_setup (change_state E s d) = dev_setup d"
  "link (change_state E s d) = link d"
  "trace (change_state E s d) =
     trace d @ (if changed_fires E (meas_status d) s
                then [ToGui (MeasuringStatus s), ToCaptureDev (s = MEASURING \<or> s = PAUSED)]
                else [])"
  by (simp_all add: change_state_def Let_def emit_meas_status_def emit_to_capture_dev_def
        emit_to_gui_def is_measuring_def is_paused_def)

lemma sent_cmds_simps [simp]:
  "sent_cmds [] = []"
  "sent_cmds (tr @ tr') = sent_cmds tr @ sent_cmds tr'"
  "sent_cmds (e # tr) = sent_of e @ sent_cmds tr"
  by (simp_all add: sent_cmds_def)

lemma gui_events_simps [simp]:
  "gui_events [] = []"
  "gui_events (tr @ tr') = gui_events tr @ gui_events tr'"
  "gui_events (e # tr) = gui_of e @ gui_events tr"
  by (simp_all add: gui_events_def)

lemma notifications_simps [simp]:
  "notifications [] = []"
  "notifications (tr @ tr') = notifications tr @ notifications tr'"
  "notifications (e # tr) = (if is_notification e then e # notifications tr else notifications tr)"
  by (simp_all add: notifications_def)

lemma check_not_measuring_pass:
  "meas_status d \<noteq> MEASURING \<Longrightarrow> check_not_measuring E force_stop func d = func d"
  by (simp add: check_not_measuring_def is_measuring_def)

lemma check_not_measuring_reject:
  "meas_status d = MEASURING \<Longrightarrow>
   check_not_measuring E False func d =
     (RNone, emit (InfoMsgBox ''Measurements still running!'' ''Please stop measurements first'') d)"
  by (simp add: check_not_measuring_def is_measuring_def)

lemmas bench_defs =
  bench_env_def bench_dev_def bench_setup0_def bench_link0_def bench_measuring_def
  bench_paused_def bench_deaf_def bench_listed_def bench_listed_shut_def bench_numbered_def
  bench_send_def bench_get_data_def NONE_DEVICE_def

subsection \<open>The measurement life cycle\<close>

text \<open>
  C5. In the states \<open>MEASURING\<close> and \<open>PAUSED\<close>, \<open>stop_meas\<close> sends the Stop command
  (\<open>CMD_START_STOP_MEAS\<close> with \<open>OP_STOP_MEAS\<close>) and nothing else; when the send reports
  success the state becomes \<open>IDLE\<close> and the last notification to the GUI is
  \<open>FrameProgress(0, 0)\<close>, preceded only by the status notification of the state change.
\<close>

theorem stop_meas_to_idle:
  "meas_status d = MEASURING \<or> meas_status d = PAUSED \<Longrightarrow>
   sent_cmds (trace (stop_meas E d)) =
     sent_cmds (trace d) @ [(CMD_START_STOP_MEAS, OP_STOP_MEAS)] \<and>
   (fst (priv_stop_meas E d) \<longrightarrow>
      meas_status (stop_meas E d) = IDLE \<and>
      gui_events (trace (stop_meas E d)) =
        gui_events (trace d)
        @ (if changed_fires E (meas_status d) IDLE then [MeasuringStatus IDLE] else [])
        @ [FrameProgress (Some 0) 0])"
  by (simp add: stop_meas_def split_beta emit_to_gui_def)

theorem stop_meas_to_idle_witness:
  "(meas_status bench_measuring = MEASURING \<or> meas_status bench_measuring = PAUSED) \<and>
   fst (priv_stop_meas bench_env bench_measuring) \<and>
   sent_cmds (trace (stop_meas bench_env bench_measuring)) = [(CMD_START_STOP_MEAS, OP_STOP_MEAS)] \<and>
   meas_status (stop_meas bench_env bench_measuring) = IDLE \<and>
   gui_events (trace (stop_meas bench_env bench_measuring)) =
     [MeasuringStatus IDLE, FrameProgress (Some 0) 0]"
proof -
  have st: "meas_status bench_measuring = MEASURING \<or> meas_status bench_measuring = PAUSED"
    by (simp add: bench_defs)
  have ok: "fst (priv_stop_meas bench_env bench_measuring)"
    by (simp add: bench_defs priv_stop_meas_def send_communicator_def)
  have tr: "trace bench_measuring = []" "changed_fires bench_env MEASURING IDLE"
    by (simp_all add: bench_defs)
  show ?thesis
    using stop_meas_to_idle [OF st, of bench_env] st ok tr by (simp add: bench_measuring_def)
qed

text \<open>
  C9. When the send of its command fails, each of \<open>start_meas\<close>, \<open>resume_meas\<close>,
  \<open>pause_meas\<close> and \<open>stop_meas\<close> leaves the measuring state as it was and posts no
  notification at all (so no progress notification either): the state changes only on a
  successful send.
\<close>

theorem send_failure_atomic:
  "(\<not> fst (priv_start_meas E d) \<longrightarrow>
      meas_status (snd (start_meas E d)) = meas_status d \<and>
      notifications (trace (snd (start_meas E d))) = notifications (trace d)) \<and>
   (\<not> fst (priv_start_meas E d) \<longrightarrow>
      meas_status (snd (resume_meas E d)) = meas_status d \<and>
      notifications (trace (snd (resume_meas E d))) = notifications (trace d)) \<and>
   (\<not> fst (priv_stop_meas E d) \<longrightarrow>
      meas_status (pause_meas E d) = meas_status d \<and>
      notifications (trace (pause_meas E d)) = notifications (trace d)) \<and>
   (\<not> fst (priv_stop_meas E d) \<longrightarrow>
      meas_status (stop_meas E d) = meas_status d \<and>
      notifications (trace (stop_meas E d)) = notifications (trace d))"
  by (cases "meas_status d = MEASURING")
     (simp_all add: start_meas_def resume_meas_def check_not_measuring_pass
        check_not_measuring_reject start_meas_body_def resume_meas_body_def
        pause_meas_def stop_meas_def split_beta)

theorem send_failure_atomic_witness:
  "\<not> fst (priv_start_meas bench_env (bench_deaf IDLE)) \<and>
   meas_status (snd (start_meas bench_env (bench_deaf IDLE))) = IDLE \<and>
   notifications (trace (snd (start_meas bench_env (bench_deaf IDLE)))) = [] \<and>
   \<not> fst (priv_start_meas bench_env (bench_deaf PAUSED)) \<and>
   meas_status (snd (resume_meas bench_env (bench_deaf PAUSED))) = PAUSED \<and>
   notifications (trace (snd (resume_meas bench_env (bench_deaf PAUSED)))) = [] \<and>
   \<not> fst (priv_stop_meas bench_env (bench_deaf MEASURING)) \<and>
   meas_status (pause_meas bench_env (bench_deaf MEASURING)) = MEASURING \<and>
   notifications (trace (pause_meas bench_env (bench_deaf MEASURING))) = [] \<and>
   meas_status (stop_meas bench_env (bench_deaf MEASURING)) = MEASURING \<and>
   notifications (trace (stop_meas bench_env (bench_deaf MEASURING))) = []"
proof -
  have a: "\<not> fst (priv_start_meas bench_env (bench_deaf s))" for s
    by (simp add: bench_defs priv_start_meas_def send_communicator_def)
  have b: "\<not> fst (priv_stop_meas bench_env (bench_deaf s))" for s
    by (simp add: bench_defs priv_stop_meas_def send_communicator_def)
  have c: "meas_status (bench_deaf s) = s" "trace (bench_deaf s) = []" for s
    by (simp_all add: bench_defs)
  show ?thesis
    using send_failure_atomic [of bench_env "bench_deaf IDLE"]
      send_failure_atomic [of bench_env "bench_deaf PAUSED"]
      send_failure_atomic [of bench_env "bench_deaf MEASURING"] a b c
    by simp
qed

text \<open>
  C2, as stated, fails: with a burst count of 3 and frame index 3 reported while measuring,
  an instrument that does not take the Stop command leaves the state \<open>MEASURING\<close>.
\<close>

theorem check_nb_meas_reached_counterexample:
  "0 < get_burst bench_env (dev_setup (bench_deaf MEASURING)) \<and>
   meas_status (bench_deaf MEASURING) = MEASURING \<and>
   meas_status (check_nb_meas_reached bench_env
      (get_burst bench_env (dev_setup (bench_deaf MEASURING))) (bench_deaf MEASURING)) = MEASURING"
  by (simp add: bench_defs check_nb_meas_reached_def is_measuring_def stop_meas_def
        priv_stop_meas_def send_communicator_def communicator_wait_not_busy_def emit_def)

text \<open>
  C2, amended. While \<open>MEASURING\<close>, with a burst count \<open>B > 0\<close> and the reported frame
  index equal to \<open>B\<close>, \<open>check_nb_meas_reached\<close> is \<open>stop_meas\<close>: the Stop command is
  sent, and the state becomes \<open>IDLE\<close> when that send reports success. With \<open>B = 0\<close> or
  when not measuring, the device is left exactly as it was.
\<close>

theorem check_nb_meas_reached_stops:
  "(meas_status d = MEASURING \<and> 0 < get_burst E (dev_setup d)
      \<and> idx = get_burst E (dev_setup d) \<longrightarrow>
      check_nb_meas_reached E idx d = stop_meas E d \<and>
      sent_cmds (trace (check_nb_meas_reached E idx d)) =
        sent_cmds (trace d) @ [(CMD_START_STOP_MEAS, OP_STOP_MEAS)] \<and>
      (fst (priv_stop_meas E d) \<longrightarrow> meas_status (check_nb_meas_reached E idx d) = IDLE)) \<and>
   (meas_status d \<noteq> MEASURING \<or> get_burst E (dev_setup d) = 0 \<longrightarrow>
      check_nb_meas_reached E idx d = d)"
  by (simp add: check_nb_meas_reached_def is_measuring_def stop_meas_def split_beta
        emit_to_gui_def)

theorem check_nb_meas_reached_stops_witness:
  "meas_status bench_measuring = MEASURING \<and>
   0 < get_burst bench_env (dev_setup bench_measuring) \<and>
   (3::int) = get_burst bench_env (dev_setup bench_measuring) \<and>
   fst (priv_stop_meas bench_env bench_measuring) \<and>
   check_nb_meas_reached bench_env 3 bench_measuring = stop_meas bench_env bench_measuring \<and>
   sent_cmds (trace (check_nb_meas_reached bench_env 3 bench_measuring)) =
     [(CMD_START_STOP_MEAS, OP_STOP_MEAS)] \<and>
   meas_status (check_nb_meas_reached bench_env 3 bench_measuring) = IDLE \<and>
   meas_status bench_paused \<noteq> MEASURING \<and>
   check_nb_meas_reached bench_env 3 bench_paused = bench_paused"
proof -
  have a: "meas_status bench_measuring = MEASURING"
    "0 < get_burst bench_env (dev_setup bench_measuring)"
    "(3::int) = get_burst bench_env (dev_setup bench_measuring)"
    "meas_status bench_paused \<noteq> MEASURING"
    by (simp_all add: bench_defs)
  have tr: "sent_cmds (trace bench_measuring) = []"
    by (simp add: bench_defs)
  have ok: "fst (priv_stop_meas bench_env bench_measuring)"
    by (simp add: bench_defs priv_stop_meas_def send_communicator_def)
  show ?thesis
    using check_nb_meas_reached_stops [of bench_measuring bench_env 3]
      check_nb_meas_reached_stops [of bench_paused bench_env 3] a ok
    unfolding tr append_Nil by blast
qed

lemma dataset_init_for_start_fields [simp]:
  "meas_status (dataset_init_for_start d) = meas_status d"
  "trace (dataset_init_for_start d) = trace d @ [ToDatasetDevSetup (dev_setup d)]"
  by (simp_all add: dataset_init_for_start_def)

lemmas life_cycle_defs =
  start_paused_resume_meas_def start_meas_def resume_meas_def pause_meas_def stop_meas_def
  check_not_measuring_def is_measuring_def is_paused_def start_meas_body_def
  resume_meas_body_def priv_start_meas_def priv_stop_meas_def send_communicator_def
  communicator_wait_not_busy_def dataset_init_for_start_def dataset_init_for_pause_def
  emit_def emit_to_gui_def change_state_def emit_meas_status_def emit_to_capture_dev_def

text \<open>
  C6. From \<open>PAUSED\<close>, \<open>resume_meas\<close> sends the Start command again
  (\<open>CMD_START_STOP_MEAS\<close> with \<open>OP_START_MEAS\<close>) and posts no \<open>FrameInfo\<close>: the
  frame-info notifications in the trace are those that were there before. From \<open>IDLE\<close>,
  \<open>start_meas\<close> sends the same command and, when the send succeeds, ends with the
  notification \<open>FrameInfo("")\<close>. The two are told apart by that notification.
\<close>

theorem resume_keeps_frame_info:
  "(meas_status d = PAUSED \<longrightarrow>
      sent_cmds (trace (snd (resume_meas E d))) =
        sent_cmds (trace d) @ [(CMD_START_STOP_MEAS, OP_START_MEAS)] \<and>
      filter is_FrameInfo (gui_events (trace (snd (resume_meas E d)))) =
        filter is_FrameInfo (gui_events (trace d)) \<and>
      (fst (priv_start_meas E d) \<longrightarrow> meas_status (snd (resume_meas E d)) = MEASURING)) \<and>
   (meas_status d = IDLE \<longrightarrow>
      sent_cmds (trace (snd (start_meas E d))) =
        sent_cmds (trace d) @ [(CMD_START_STOP_MEAS, OP_START_MEAS)] \<and>
      (fst (priv_start_meas E d) \<longrightarrow>
         meas_status (snd (start_meas E d)) = MEASURING \<and>
         gui_events (trace (snd (start_meas E d))) =
           gui_events (trace d)
           @ (if changed_fires E IDLE MEASURING then [MeasuringStatus MEASURING] else [])
           @ [FrameInfo '''']))"
  by (simp add: start_meas_def resume_meas_def check_not_measuring_pass
        start_meas_body_def resume_meas_body_def split_beta emit_to_gui_def)

theorem resume_keeps_frame_info_witness:
  "meas_status bench_paused = PAUSED \<and>
   fst (priv_start_meas bench_env bench_paused) \<and>
   sent_cmds (trace (snd (resume_meas bench_env bench_paused))) =
     [(CMD_START_STOP_MEAS, OP_START_MEAS)] \<and>
   filter is_FrameInfo (gui_events (trace (snd (resume_meas bench_env bench_paused)))) = [] \<and>
   meas_status (snd (resume_meas bench_env bench_paused)) = MEASURING \<and>
   meas_status bench_dev = IDLE \<and>
   fst (priv_start_meas bench_env bench_dev) \<and>
   sent_cmds (trace (snd (start_meas bench_env bench_dev))) =
     [(CMD_START_STOP_MEAS, OP_START_MEAS)] \<and>
   meas_status (snd (start_meas bench_env bench_dev)) = MEASURING \<and>
   gui_events (trace (snd (start_meas bench_env bench_dev))) =
     [MeasuringStatus MEASURING, FrameInfo '''']"
proof -
  have a: "meas_status bench_paused = PAUSED" "trace bench_paused = []"
    "meas_status bench_dev = IDLE" "trace bench_dev = []"
    "changed_fires bench_env IDLE MEASURING"
    by (simp_all add: bench_defs)
  have ok: "fst (priv_start_meas bench_env bench_paused)"
    "fst (priv_start_meas bench_env bench_dev)"
    by (simp_all add: bench_defs priv_start_meas_def send_communicator_def)
  show ?thesis
    using resume_keeps_frame_info [of bench_paused bench_env]
      resume_keeps_frame_info [of bench_dev bench_env] a ok
    by simp
qed




subsection \<open>The guard\<close>

lemma stop_meas_status:
  "fst (priv_stop_meas E d) \<Longrightarrow> meas_status (stop_meas E d) = IDLE"
  by (simp add: stop_meas_def split_beta emit_to_gui_def)

text \<open>
  C1, as stated, fails for \<open>PAUSED\<close>: the guard tests \<open>is_measuring\<close> only. On a
  paused device \<open>get_device_infos\<close> runs: it sends its request and posts the setup, no
  Stop command is sent before it, and the state is \<open>PAUSED\<close> throughout.
\<close>

theorem guard_paused_counterexample:
  "meas_status bench_paused = PAUSED \<and>
   trace bench_paused = [] \<and>
   trace (snd (get_device_infos bench_env bench_paused)) =
     [SendCmdFrame CMD_GET_DEVICE_INFOS OP_NULL [],
      ToGui (DevSetup (bench_setup0\<lparr>bs_sn := [1, 2, 3]\<rparr>))] \<and>
   meas_status (snd (get_device_infos bench_env bench_paused)) = PAUSED"
  by (simp add: bench_defs get_device_infos_def get_device_infos_body_def life_cycle_defs)

text \<open>
  C1, amended. While \<open>MEASURING\<close>, each of the eight guarded operations is rejected:
  the method body is not run (the result does not depend on it), \<open>None\<close> is returned and
  the only effect is the box asking to stop the measurements first. A function guarded
  with \<open>force_stop\<close> set is run after \<open>stop_meas\<close> and the box saying that the
  measurements have been stopped, in state \<open>IDLE\<close> when the Stop command was sent with
  success. In any other state, \<open>PAUSED\<close> included, the guard runs the function on the
  device as it is.
\<close>

theorem guard_rejects_while_measuring:
  "(meas_status d = MEASURING \<longrightarrow>
      (\<forall>op \<in> set (guarded_ops E name).
         op d = (RNone, emit (InfoMsgBox ''Measurements still running!''
                                ''Please stop measurements first'') d)) \<and>
      check_not_measuring E True func d =
        func (emit (InfoMsgBox ''Measurements still running!''
                      ''Measurements have been stopped'') (stop_meas E d)) \<and>
      (fst (priv_stop_meas E d) \<longrightarrow>
         meas_status (emit (InfoMsgBox ''Measurements still running!''
                      ''Measurements have been stopped'') (stop_meas E d)) = IDLE)) \<and>
   (meas_status d \<noteq> MEASURING \<longrightarrow> check_not_measuring E force_stop func d = func d)"
  by (simp add: guarded_ops_def set_device_name_def get_devices_def connect_device_def
        disconnect_device_def get_device_infos_def set_setup_def get_setup_def
        software_reset_def check_not_measuring_reject check_not_measuring_pass
        stop_meas_status)
     (simp add: check_not_measuring_def is_measuring_def)

theorem guard_rejects_while_measuring_witness:
  "meas_status bench_measuring = MEASURING \<and>
   get_setup bench_env bench_measuring =
     (RNone, bench_measuring\<lparr>trace := [InfoMsgBox ''Measurements still running!''
                                ''Please stop measurements first'']\<rparr>) \<and>
   fst (priv_stop_meas bench_env bench_measuring) \<and>
   check_not_measuring bench_env True (get_setup_body bench_env) bench_measuring =
     get_setup_body bench_env
       (emit (InfoMsgBox ''Measurements still running!'' ''Measurements have been stopped'')
          (stop_meas bench_env bench_measuring)) \<and>
   meas_status (emit (InfoMsgBox ''Measurements still running!''
      ''Measurements have been stopped'') (stop_meas bench_env bench_measuring)) = IDLE \<and>
   meas_status bench_paused \<noteq> MEASURING \<and>
   check_not_measuring bench_env False (get_setup_body bench_env) bench_paused =
     get_setup_body bench_env bench_paused"
proof -
  have a: "meas_status bench_measuring = MEASURING" "meas_status bench_paused \<noteq> MEASURING"
    by (simp_all add: bench_defs)
  have ok: "fst (priv_stop_meas bench_env bench_measuring)"
    by (simp add: bench_defs life_cycle_defs)
  have mem: "get_setup bench_env \<in> set (guarded_ops bench_env None)"
    by (simp add: guarded_ops_def)
  have e: "emit x bench_measuring = bench_measuring\<lparr>trace := [x]\<rparr>" for x
    by (simp add: emit_def bench_defs)
  from guard_rejects_while_measuring
         [of bench_measuring bench_env None "get_setup_body bench_env"] a(1) ok mem
  have r: "get_setup bench_env bench_measuring =
     (RNone, emit (InfoMsgBox ''Measurements still running!''
                     ''Please stop measurements first'') bench_measuring)"
    "check_not_measuring bench_env True (get_setup_body bench_env) bench_measuring =
     get_setup_body bench_env
       (emit (InfoMsgBox ''Measurements still running!'' ''Measurements have been stopped'')
          (stop_meas bench_env bench_measuring))"
    "meas_status (emit (InfoMsgBox ''Measurements still running!''
      ''Measurements have been stopped'') (stop_meas bench_env bench_measuring)) = IDLE"
    by blast+
  from guard_rejects_while_measuring
         [of bench_paused bench_env None "get_setup_body bench_env" False] a(2)
  have p: "check_not_measuring bench_env False (get_setup_body bench_env) bench_paused =
     get_setup_body bench_env bench_paused"
    by blast
  show ?thesis using a ok r(2,3) p r(1) [unfolded e] by blast
qed

subsection \<open>Pushing the setup\<close>

lemma send_communicator_sent [simp]:
  "sent_cmds (trace (snd (send_communicator E cmd op d))) = sent_cmds (trace d) @ [(cmd, op)]"
  by simp

lemma set_setup_head_fields:
  "meas_status (set_setup_head E d) = meas_status d"
  "sent_cmds (trace (set_setup_head E d)) =
     sent_cmds (trace d) @
     [(CMD_SET_OUTPUT_CONFIG, OP_EXC_STAMP), (CMD_SET_OUTPUT_CONFIG, OP_CURRENT_STAMP),
      (CMD_SET_OUTPUT_CONFIG, OP_TIME_STAMP), (CMD_SET_ETHERNET_CONFIG, OP_DHCP),
      (CMD_SET_MEAS_SETUP, OP_RESET_SETUP), (CMD_SET_MEAS_SETUP, OP_EXC_AMPLITUDE),
      (CMD_SET_MEAS_SETUP, OP_BURST_COUNT), (CMD_SET_MEAS_SETUP, OP_FRAME_RATE),
      (CMD_SET_MEAS_SETUP, OP_EXC_FREQUENCIES)]"
  by (simp_all add: set_setup_head_def split_beta del: send_communicator_fields(4))

lemma exc_pattern_loop_fields:
  "meas_status (exc_pattern_loop E idxs d) = meas_status d"
  "sent_cmds (trace (exc_pattern_loop E idxs d)) =
     sent_cmds (trace d) @ replicate (length idxs) (CMD_SET_MEAS_SETUP, OP_EXC_PATTERN)"
proof (induction idxs arbitrary: d)
  case Nil
  { case 1 show ?case by simp }
  { case 2 show ?case by simp }
next
  case (Cons idx idxs)
  { case 1 show ?case by (simp add: split_beta Cons.IH(1)) }
  { case 2 show ?case
      by (simp add: split_beta Cons.IH(2) replicate_append_same del: send_communicator_fields(4)) }
qed

lemma get_setup_body_fields:
  "meas_status (snd (get_setup_body E d)) = meas_status d"
  "sent_cmds (trace (snd (get_setup_body E d))) =
     sent_cmds (trace d) @
     [(CMD_GET_MEAS_SETUP, OP_EXC_AMPLITUDE), (CMD_GET_MEAS_SETUP, OP_BURST_COUNT),
      (CMD_GET_MEAS_SETUP, OP_FRAME_RATE), (CMD_GET_MEAS_SETUP, OP_EXC_FREQUENCIES),
      (CMD_GET_MEAS_SETUP, OP_EXC_PATTERN), (CMD_GET_OUTPUT_CONFIG, OP_EXC_STAMP),
      (CMD_GET_OUTPUT_CONFIG, OP_CURRENT_STAMP), (CMD_GET_OUTPUT_CONFIG, OP_TIME_STAMP),
      (CMD_GET_ETHERNET_CONFIG, OP_IP_ADRESS), (CMD_GET_ETHERNET_CONFIG, OP_MAC_ADRESS),
      (CMD_GET_ETHERNET_CONFIG, OP_DHCP)]"
  by (simp_all add: get_setup_body_def split_beta Let_def emit_to_gui_def
        del: send_communicator_fields(4))

lemmas setup_defs =
  set_setup_def set_setup_body_def set_setup_head_def get_setup_def get_setup_body_def



subsection \<open>Scanning and connecting\<close>

lemma priv_connect_interface_fields [simp]:
  "meas_status (snd (priv_connect_interface E port d)) = meas_status d"
  "device_name (snd (priv_connect_interface E port d)) = device_name d"
  "sciospec_devices (snd (priv_connect_interface E port d)) = sciospec_devices d"
  "dev_setup (snd (priv_connect_interface E port d)) = dev_setup d"
  "link (snd (priv_connect_interface E port d)) = snd (serial_open E port (link d))"
  "trace (snd (priv_connect_interface E port d)) = trace d @ [SerialOpen port]"
  "fst (priv_connect_interface E port d) = fst (serial_open E port (link d))"
  by (simp_all add: priv_connect_interface_def split_beta)

lemma priv_disconnect_interface_fields [simp]:
  "meas_status (snd (priv_disconnect_interface E d)) = meas_status d"
  "device_name (snd (priv_disconnect_interface E d)) = device_name d"
  "sciospec_devices (snd (priv_disconnect_interface E d)) = sciospec_devices d"
  "dev_setup (snd (priv_disconnect_interface E d)) = dev_setup d"
  "trace (snd (priv_disconnect_interface E d)) = trace d @ [SerialClose]"
  by (simp_all add: priv_disconnect_interface_def split_beta)

lemma get_device_infos_fields [simp]:
  "meas_status (snd (get_device_infos E d)) = meas_status d"
  "device_name (snd (get_device_infos E d)) = device_name d"
  "sciospec_devices (snd (get_device_infos E d)) = sciospec_devices d"
  by (simp_all add: get_device_infos_def get_device_infos_body_def check_not_measuring_def
        Let_def split_beta emit_to_gui_def is_measuring_def)

text \<open>
  C7. Probing a port (\<open>_check_is_sciospec_dev\<close>: open, stop, request the device
  infos, build the name, close) leaves the serial number of the setup as it was before
  the probe, whatever the instrument answered in between, and so does the scan of any
  list of ports in \<open>get_devices\<close>. The code of the setup object is missing; what is
  needed of it is that \<open>get_sn(in_bytes=True)\<close> reads back what \<open>set_sn\<close>
  stored.
\<close>

theorem probe_restores_sn:
  assumes law: "\<And>b su. get_sn E (set_sn E b su) = b"
  shows "get_sn E (dev_setup (snd (priv_check_is_sciospec_dev E port d))) = get_sn E (dev_setup d) \<and>
         get_sn E (dev_setup (get_devices_loop E ports d)) = get_sn E (dev_setup d)"
proof
  show one: "get_sn E (dev_setup (snd (priv_check_is_sciospec_dev E port d))) =
      get_sn E (dev_setup d)" for port and d :: "('a, 'b) device"
    by (simp add: priv_check_is_sciospec_dev_def Let_def split_beta law)
  show "get_sn E (dev_setup (get_devices_loop E ports d)) = get_sn E (dev_setup d)"
  proof (induction ports arbitrary: d)
    case Nil
    show ?case by simp
  next
    case (Cons port ports)
    show ?case
      using one [of port d]
      by (simp add: Let_def split_beta Cons.IH split: option.split)
  qed
qed

theorem probe_restores_sn_witness:
  "get_sn bench_env (dev_setup bench_numbered) = [9, 9] \<and>
   gui_events (trace (snd (priv_check_is_sciospec_dev bench_env ''COM3'' bench_numbered))) =
     [DevSetup (bench_setup0\<lparr>bs_sn := [1, 2, 3]\<rparr>)] \<and>
   get_sn bench_env (dev_setup (snd (priv_check_is_sciospec_dev bench_env ''COM3''
     bench_numbered))) = [9, 9] \<and>
   get_sn bench_env (dev_setup (get_devices_loop bench_env [''COM3'', ''COM4'']
     bench_numbered)) = [9, 9]"
proof -
  have law: "get_sn bench_env (set_sn bench_env b su) = b" for b su
    by (simp add: bench_env_def)
  have a: "get_sn bench_env (dev_setup bench_numbered) = [9, 9]"
    by (simp add: bench_defs)
  have g: "gui_events (trace (snd (priv_check_is_sciospec_dev bench_env ''COM3''
      bench_numbered))) = [DevSetup (bench_setup0\<lparr>bs_sn := [1, 2, 3]\<rparr>)]"
    by (simp add: bench_defs priv_check_is_sciospec_dev_def get_device_infos_def
          get_device_infos_body_def priv_connect_interface_def priv_disconnect_interface_def
          life_cycle_defs)
  show ?thesis
    using probe_restores_sn [of bench_env "''COM3''" bench_numbered "[''COM3'', ''COM4'']",
        OF law] a g
    by simp
qed

lemma priv_get_sciospec_port_found:
  "map_of (sciospec_devices d) n = Some p \<Longrightarrow>
   priv_get_sciospec_port (Some n) d = (Some p, d)"
  by (auto simp add: priv_get_sciospec_port_def)

lemmas connect_defs =
  connect_device_def connect_device_body_def priv_get_sciospec_port_def
  priv_connect_interface_def get_device_infos_def get_device_infos_body_def
  emit_dev_status_def connect_prompt_def is_connected_def

text \<open>
  C8. With the device list \<open>{"DevA": "COM3"}\<close>, \<open>device_name = "DevA"\<close>, the state
  \<open>IDLE\<close> and a port \<open>COM3\<close> that opens, \<open>connect_device\<close> returns \<open>True\<close>, the
  last notification to the GUI is the device status with the prompt
  \<open>DevA - CONNECTED\<close> (and the connected flag of the interface), and the state is still
  \<open>IDLE\<close>.
\<close>

theorem connect_device_scenario:
  assumes devs: "sciospec_devices d = [(''DevA'', ''COM3'')]"
    and name: "device_name d = ''DevA''"
    and idle: "meas_status d = IDLE"
    and opened: "fst (serial_open E ''COM3'' (link d))"
  shows "fst (connect_device E d) = RBool True \<and>
         last (gui_events (trace (snd (connect_device E d)))) =
           DevStatus (is_connected E (snd (connect_device E d))) ''DevA - CONNECTED'' \<and>
         meas_status (snd (connect_device E d)) = IDLE"
proof -
  have port: "priv_get_sciospec_port (Some ''DevA'') d = (Some ''COM3'', d)"
    by (rule priv_get_sciospec_port_found) (simp add: devs)
  have nm: "meas_status d \<noteq> MEASURING" using idle by simp
  show ?thesis
    using opened idle name
    by (simp add: connect_device_def check_not_measuring_pass [OF nm] connect_device_body_def
          port Let_def split_beta emit_dev_status_def emit_to_gui_def connect_prompt_def
          is_connected_def)
qed

theorem connect_device_scenario_witness:
  "sciospec_devices bench_listed = [(''DevA'', ''COM3'')] \<and>
   device_name bench_listed = ''DevA'' \<and>
   meas_status bench_listed = IDLE \<and>
   fst (serial_open bench_env ''COM3'' (link bench_listed)) \<and>
   fst (connect_device bench_env bench_listed) = RBool True \<and>
   last (gui_events (trace (snd (connect_device bench_env bench_listed)))) =
     DevStatus True ''DevA - CONNECTED'' \<and>
   meas_status (snd (connect_device bench_env bench_listed)) = IDLE"
proof -
  have a: "sciospec_devices bench_listed = [(''DevA'', ''COM3'')]"
    "device_name bench_listed = ''DevA''" "meas_status bench_listed = IDLE"
    "fst (serial_open bench_env ''COM3'' (link bench_listed))"
    by (simp_all add: bench_defs)
  have c: "is_connected bench_env (snd (connect_device bench_env bench_listed))"
    by (simp add: bench_defs connect_defs life_cycle_defs)
  show ?thesis
    using connect_device_scenario [OF a] a c by simp
qed

text \<open>
  C10, as stated, fails in its second part: the flag of the status notification is what
  the interface reports, not the outcome of the connection. On an interface that holds
  a connection, \<open>connect_device\<close> called once more fails to open the port, resets the
  name and posts the prompt \<open>None Device - CONNECTED\<close> with the flag \<open>True\<close>.
\<close>

theorem failed_connect_flag_counterexample:
  "fst (connect_device bench_env_held bench_listed) = RBool True \<and>
   meas_status bench_connected = IDLE \<and>
   device_name bench_connected = ''DevA'' \<and>
   fst (connect_device bench_env_held bench_connected) = RBool False \<and>
   device_name (snd (connect_device bench_env_held bench_connected)) = ''None Device'' \<and>
   last (gui_events (trace (snd (connect_device bench_env_held bench_connected)))) =
     DevStatus True ''None Device - CONNECTED''"
  by (simp add: bench_connected_def bench_env_held_def bench_defs connect_defs life_cycle_defs)

text \<open>
  C10, amended. In every state of the device and of the interface, \<open>emit_dev_status\<close>
  posts the flag that the interface reports together with the prompt made of the device
  name and \<open>" - CONNECTED"\<close>: the prompt is the same whatever the interface is. When
  the port of the selected device does not open, \<open>connect_device\<close> returns \<open>False\<close>,
  resets the name to \<open>None Device\<close>, and does nothing but try the port and post the
  status with the prompt \<open>None Device - CONNECTED\<close> and the flag that the interface
  reports after the failed open.
\<close>

theorem failed_connect_status:
  "connect_prompt (d\<lparr>link := w\<rparr>) = device_name d @ '' - CONNECTED'' \<and>
   trace (emit_dev_status E (d\<lparr>link := w\<rparr>)) =
     trace d @ [ToGui (DevStatus (is_connected_set E w) (device_name d @ '' - CONNECTED''))] \<and>
   (meas_status d \<noteq> MEASURING \<and> map_of (sciospec_devices d) (device_name d) = Some p
      \<and> \<not> fst (serial_open E p (link d)) \<longrightarrow>
      fst (connect_device E d) = RBool False \<and>
      device_name (snd (connect_device E d)) = NONE_DEVICE \<and>
      meas_status (snd (connect_device E d)) = meas_status d \<and>
      trace (snd (connect_device E d)) =
        trace d @
        [SerialOpen p,
         ToGui (DevStatus (is_connected_set E (snd (serial_open E p (link d))))
                  ''None Device - CONNECTED'')])"
  by (simp add: connect_prompt_def connect_device_def check_not_measuring_pass
        connect_device_body_def priv_get_sciospec_port_found Let_def split_beta
        emit_dev_status_def emit_to_gui_def is_connected_def NONE_DEVICE_def)

theorem failed_connect_status_witness:
  "meas_status bench_listed_shut \<noteq> MEASURING \<and>
   map_of (sciospec_devices bench_listed_shut) (device_name bench_listed_shut) = Some ''COM3'' \<and>
   \<not> fst (serial_open bench_env ''COM3'' (link bench_listed_shut)) \<and>
   fst (connect_device bench_env bench_listed_shut) = RBool False \<and>
   device_name (snd (connect_device bench_env bench_listed_shut)) = ''None Device'' \<and>
   trace (snd (connect_device bench_env bench_listed_shut)) =
     [SerialOpen ''COM3'', ToGui (DevStatus False ''None Device - CONNECTED'')] \<and>
   connect_prompt (bench_listed\<lparr>link := bench_link0\<lparr>bl_connected := True\<rparr>\<rparr>) =
     ''DevA - CONNECTED'' \<and>
   connect_prompt (bench_listed\<lparr>link := bench_link0\<lparr>bl_connected := False\<rparr>\<rparr>) =
     ''DevA - CONNECTED''"
proof -
  have a: "meas_status bench_listed_shut \<noteq> MEASURING"
    "map_of (sciospec_devices bench_listed_shut) (device_name bench_listed_shut) = Some ''COM3''"
    "\<not> fst (serial_open bench_env ''COM3'' (link bench_listed_shut))"
    "\<not> is_connected_set bench_env (snd (serial_open bench_env ''COM3'' (link bench_listed_shut)))"
    "trace bench_listed_shut = []" "device_name bench_listed = ''DevA''"
    by (simp_all add: bench_defs)
  show ?thesis
    using failed_connect_status [where d = bench_listed_shut and p = "''COM3''" and E = bench_env]
      failed_connect_status [where d = bench_listed and w = "bench_link0\<lparr>bl_connected := True\<rparr>"]
      failed_connect_status [where d = bench_listed and w = "bench_link0\<lparr>bl_connected := False\<rparr>"]
      a
    by (simp add: NONE_DEVICE_def)
qed

end
